theory Spec2Isabelle
  imports Main
begin

section \<open>The post-build script \<open>to_bin.py\<close>\<close>

text \<open>
  The repository is one script, read by the build system after it has set up its
  environment object \<open>env\<close>:
  \<^verbatim>\<open>
  Import("env")
  env.AddPostAction(
      "$BUILD_DIR/${PROGNAME}.elf",
      env.VerboseAction(" ".join([
          "$OBJCOPY", "-O", "binary", "-R", ".eeprom",
          "$BUILD_DIR/${PROGNAME}.elf", "$BUILD_DIR/${PROGNAME}.bin"
      ]), "Building $BUILD_DIR/${PROGNAME}.bin")
  )
  \<close>
  The script computes one string (the command line template), pairs it with a message
  template and registers the pair under a target template. Everything else happens in
  the build system and in the object-copy tool.
\<close>

subsection \<open>Python's \<open>str.join\<close>\<close>

fun join_str :: "string \<Rightarrow> string list \<Rightarrow> string" where
  "join_str sep [] = []"
| "join_str sep [x] = x"
| "join_str sep (x # y # ys) = x @ sep @ join_str sep (y # ys)"

subsection \<open>The environment object\<close>

text \<open>
  Modelled from the spec: \<open>env.VerboseAction\<close> and \<open>env.AddPostAction\<close> are functions of
  the host build pipeline, which is not part of the repository. The spec gives them as
  ``a mechanism to register a callback to run after a named build target is produced''
  and as the action's ``human-readable build-log line''. The definitions follow the host
  the script is written for (SCons, driven by PlatformIO):

  \<^item> \<open>VerboseAction(act, actstr)\<close> keeps the message \<open>actstr\<close> for the command \<open>act\<close>,
    except in a verbose build, where it returns the bare command and the message is
    dropped;
  \<^item> \<open>AddPostAction(target, action)\<close> adds the action to those of the target; the
    environment is state, and the call returns it with one more entry. Calling it twice
    registers the action twice.
\<close>

record action =
  cmd_line :: string
  cmd_str :: "string option"

record env =
  verbose :: bool
  post_actions :: "(string \<times> action) list"

definition VerboseAction :: "env \<Rightarrow> string \<Rightarrow> string \<Rightarrow> action" where
  "VerboseAction e act actstr =
     \<lparr>cmd_line = act, cmd_str = (if verbose e then None else Some actstr)\<rparr>"

definition AddPostAction :: "string \<Rightarrow> action \<Rightarrow> env \<Rightarrow> env" where
  "AddPostAction target act e = e\<lparr>post_actions := post_actions e @ [(target, act)]\<rparr>"

subsection \<open>The script\<close>

definition to_bin :: "env \<Rightarrow> env" where
  "to_bin e =
     AddPostAction ''$BUILD_DIR/${PROGNAME}.elf''
       (VerboseAction e (join_str '' '' [
          ''$OBJCOPY'', ''-O'', ''binary'', ''-R'', ''.eeprom'',
          ''$BUILD_DIR/${PROGNAME}.elf'', ''$BUILD_DIR/${PROGNAME}.bin''
        ]) ''Building $BUILD_DIR/${PROGNAME}.bin'')
       e"

subsection \<open>The host's command substitution\<close>

text \<open>
  Modelled from the spec: the host build pipeline is not part of the repository. The
  spec says of it only that the paths are ``provided by the host build pipeline via
  variable substitution'' and that the host ``shells out'' with the command. The rules
  below are those of the host the script is written for (the command substitution of
  SCons), so that the model agrees with a real build wherever it gives an answer; where
  it gives \<open>None\<close>, the case is outside the model.

  \<^item> \<open>vars\<close> holds the build variables that are set; a text value may be empty.
  \<^item> The template is read from left to right into a list of words. Blank space ends
    the current word (\<open>next_word\<close>); other text is glued onto the current word, or
    starts a new one after a blank (\<open>add_text\<close>).
  \<^item> \<open>$NAME\<close> and \<open>${NAME}\<close> stand for the value of a variable. A bare name runs on
    through letters, digits, underscores and dots, which is why the script writes
    \<open>${PROGNAME}.elf\<close> with braces. A variable that is not set contributes nothing. The
    value of one that is set is read like the template (\<open>put_value\<close>): blanks inside it
    end words, so a value with a space in it becomes several words. After the value the
    host glues what follows onto the current word (\<open>this_word\<close>), so a blank at the
    end of a value does not end the word, and an empty value joins the text after it
    to the word before it.
  \<^item> Before the command runs, leading \<open>@\<close> and \<open>-\<close> are taken off its first word, and
    the word is dropped when nothing is left of it (\<open>strip_marks\<close>).
  \<^item> The words are then handed to the shell as one line. Only plain characters are
    modelled (\<open>is_plain\<close>: letters, digits and \<open>_ . / - + : , @\<close>), which the shell passes
    on unchanged, and the blank. Quotes, backslashes, other white space, shell
    metacharacters, a \<open>$\<close> inside a value, names that are not written in capitals and
    the names the host sets itself for every action give \<open>None\<close>.

  What the object-copy tool does with its arguments, and when the host runs the
  action, is not modelled.
\<close>

type_synonym vars = "string \<rightharpoonup> string"

definition is_plain :: "char \<Rightarrow> bool" where
  "is_plain c =
     (c \<in> set ''abcdefghijklmnopqrstuvwxyzABCDEFGHIJKLMNOPQRSTUVWXYZ0123456789_./-+:,@'')"

definition is_name_start :: "char \<Rightarrow> bool" where
  "is_name_start c =
     (c \<in> set ''_abcdefghijklmnopqrstuvwxyzABCDEFGHIJKLMNOPQRSTUVWXYZ'')"

definition is_name_char :: "char \<Rightarrow> bool" where
  "is_name_char c = (is_name_start c \<or> c \<in> set ''.0123456789'')"

definition is_var_name :: "string \<Rightarrow> bool" where
  "is_var_name n =
     (case n of
        [] \<Rightarrow> False
      | c # cs \<Rightarrow>
          c \<in> set ''_ABCDEFGHIJKLMNOPQRSTUVWXYZ'' \<and>
          list_all (\<lambda>x. x \<in> set ''_ABCDEFGHIJKLMNOPQRSTUVWXYZ0123456789'') cs \<and>
          n \<notin> set [''TARGET'', ''TARGETS'', ''SOURCE'', ''SOURCES'', ''CHANGED_SOURCES'',
            ''CHANGED_TARGETS'', ''UNCHANGED_SOURCES'', ''UNCHANGED_TARGETS''])"

record subber =
  words :: "string list"
  fresh :: bool

definition next_word :: "subber \<Rightarrow> subber" where
  "next_word s = s\<lparr>fresh := True\<rparr>"

definition this_word :: "subber \<Rightarrow> subber" where
  "this_word s = s\<lparr>fresh := False\<rparr>"

definition add_text :: "string \<Rightarrow> subber \<Rightarrow> subber" where
  "add_text x s =
     (if fresh s \<or> words s = [] then \<lparr>words = words s @ [x], fresh = False\<rparr>
      else \<lparr>words = butlast (words s) @ [last (words s) @ x], fresh = False\<rparr>)"

fun put_value :: "string \<Rightarrow> subber \<Rightarrow> subber option" where
  "put_value [] s = Some s"
| "put_value (c # cs) s =
     (if c = CHR '' '' then put_value cs (next_word s)
      else if is_plain c then put_value cs (add_text [c] s)
      else None)"

definition put_var :: "vars \<Rightarrow> string \<Rightarrow> subber \<Rightarrow> subber option" where
  "put_var vs n s =
     (if \<not> is_var_name n then None
      else case vs n of
        None \<Rightarrow> Some s
      | Some v \<Rightarrow> map_option this_word (put_value v s))"

datatype scan = Plain | Dollar | Bare string | Braced string

fun subst_from :: "vars \<Rightarrow> scan \<Rightarrow> string \<Rightarrow> subber \<Rightarrow> subber option" where
  "subst_from vs Plain [] s = Some s"
| "subst_from vs Plain (c # cs) s =
     (if c = CHR '' '' then subst_from vs Plain cs (next_word s)
      else if c = CHR ''$'' then subst_from vs Dollar cs s
      else if is_plain c then subst_from vs Plain cs (add_text [c] s)
      else None)"
| "subst_from vs Dollar [] s = None"
| "subst_from vs Dollar (c # cs) s =
     (if c = CHR ''{'' then subst_from vs (Braced []) cs s
      else if is_name_start c then subst_from vs (Bare [c]) cs s
      else None)"
| "subst_from vs (Bare n) [] s = put_var vs n s"
| "subst_from vs (Bare n) (c # cs) s =
     (if is_name_char c then subst_from vs (Bare (n @ [c])) cs s
      else case put_var vs n s of
        None \<Rightarrow> None
      | Some s' \<Rightarrow>
          (if c = CHR '' '' then subst_from vs Plain cs (next_word s')
           else if c = CHR ''$'' then subst_from vs Dollar cs s'
           else if is_plain c then subst_from vs Plain cs (add_text [c] s')
           else None))"
| "subst_from vs (Braced n) [] s = None"
| "subst_from vs (Braced n) (c # cs) s =
     (if c = CHR ''}'' then
        (case put_var vs n s of None \<Rightarrow> None | Some s' \<Rightarrow> subst_from vs Plain cs s')
      else subst_from vs (Braced (n @ [c])) cs s)"

definition subst_list :: "vars \<Rightarrow> string \<Rightarrow> string list option" where
  "subst_list vs t = map_option words (subst_from vs Plain t \<lparr>words = [], fresh = True\<rparr>)"

definition is_mark :: "char \<Rightarrow> bool" where
  "is_mark c = (c = CHR ''@'' \<or> c = CHR ''-'')"

fun strip_marks :: "string list \<Rightarrow> string list" where
  "strip_marks [] = []"
| "strip_marks (w # ws) = (if dropWhile is_mark w = [] then ws else dropWhile is_mark w # ws)"

definition command_words :: "vars \<Rightarrow> action \<Rightarrow> string list option" where
  "command_words vs a = map_option strip_marks (subst_list vs (cmd_line a))"

subsection \<open>Vocabulary of the claims\<close>

text \<open>
  A plain word is a non-empty text of plain characters; a plain text may have blanks in
  it; \<open>has_plain\<close> says that a text is not all blanks. A word is unmarked when it does
  not start with \<open>@\<close> or \<open>-\<close>. The quoting characters are the double quote, the single
  quote and the backslash. The two paths of a build are written as in the spec.
\<close>

definition plain_word :: "string \<Rightarrow> bool" where
  "plain_word w = (w \<noteq> [] \<and> list_all is_plain w)"


definition has_plain :: "string \<Rightarrow> bool" where
  "has_plain v = list_ex is_plain v"

definition unmarked :: "string \<Rightarrow> bool" where
  "unmarked w = (case w of [] \<Rightarrow> True | c # cs \<Rightarrow> \<not> is_mark c)"

definition elf_path :: "string \<Rightarrow> string \<Rightarrow> string" where
  "elf_path d p = d @ ''/'' @ p @ ''.elf''"

definition bin_path :: "string \<Rightarrow> string \<Rightarrow> string" where
  "bin_path d p = d @ ''/'' @ p @ ''.bin''"


subsection \<open>Notions used in the proofs\<close>

text \<open>
  \<open>put_path\<close> is the substitution of one path token, \<open>$BUILD_DIR/${PROGNAME}\<close> with an
  extension, step by step. \<open>shift\<close> puts words in front of a state; a state is anchored
  when the next text cannot be glued onto a word in front of it.
\<close>

definition put_path :: "string \<Rightarrow> string \<Rightarrow> string \<Rightarrow> subber \<Rightarrow> subber option" where
  "put_path d p ext s =
     Option.bind (put_value d s) (\<lambda>s1.
       Option.bind (put_value p (add_text ''/'' (this_word s1))) (\<lambda>s2.
         Some (add_text ext (this_word s2))))"

definition shift :: "string list \<Rightarrow> subber \<Rightarrow> subber" where
  "shift P s = s\<lparr>words := P @ words s\<rparr>"

definition anchored :: "subber \<Rightarrow> bool" where
  "anchored s = (fresh s \<or> words s \<noteq> [])"

section \<open>What the script registers\<close>

lemma to_bin_post_actions:
  "post_actions (to_bin e) = post_actions e @
     [(''$BUILD_DIR/${PROGNAME}.elf'',
       \<lparr>cmd_line =
          ''$OBJCOPY -O binary -R .eeprom $BUILD_DIR/${PROGNAME}.elf $BUILD_DIR/${PROGNAME}.bin'',
        cmd_str = (if verbose e then None else Some ''Building $BUILD_DIR/${PROGNAME}.bin'')\<rparr>)]"
  by (simp add: to_bin_def AddPostAction_def VerboseAction_def)

lemma to_bin_entry:
  assumes "post_actions (to_bin e) = post_actions e @ [(tgt, act)]"
  shows "tgt = ''$BUILD_DIR/${PROGNAME}.elf''"
    and "cmd_line act =
      ''$OBJCOPY -O binary -R .eeprom $BUILD_DIR/${PROGNAME}.elf $BUILD_DIR/${PROGNAME}.bin''"
  using assms by (auto simp: to_bin_post_actions)

lemma plain_not_space: "is_plain c \<Longrightarrow> c \<noteq> CHR '' ''"
  by (auto simp: is_plain_def)

lemma add_text_add_text [simp]: "add_text y (add_text x s) = add_text (x @ y) s"
  by (simp add: add_text_def butlast_append)

lemma put_value_plain: "list_all is_plain v \<Longrightarrow> put_value v s = Some (if v = [] then s else add_text v s)"
proof (induction v arbitrary: s)
  case Nil
  then show ?case by simp
next
  case (Cons c cs)
  then have "c \<noteq> CHR '' ''" by (simp add: plain_not_space)
  with Cons show ?case by simp
qed

lemma put_value_plain_word: "plain_word w \<Longrightarrow> put_value w s = Some (add_text w s)"
  by (simp add: plain_word_def put_value_plain)

lemma path_template:
  assumes "vs ''BUILD_DIR'' = Some d" and "vs ''PROGNAME'' = Some p"
  shows "subst_from vs Plain ''$BUILD_DIR/${PROGNAME}.elf'' s = put_path d p ''.elf'' s"
    and "subst_from vs Plain ''$BUILD_DIR/${PROGNAME}.bin'' s = put_path d p ''.bin'' s"
  using assms
  by (simp_all add: put_path_def put_var_def is_var_name_def is_name_start_def is_name_char_def
      is_plain_def split: option.splits)

lemma command_template:
  assumes "vs ''OBJCOPY'' = Some tool" and "plain_word tool"
    and "vs ''BUILD_DIR'' = Some d" and "vs ''PROGNAME'' = Some p"
  shows "subst_from vs Plain
      ''$OBJCOPY -O binary -R .eeprom $BUILD_DIR/${PROGNAME}.elf $BUILD_DIR/${PROGNAME}.bin''
      \<lparr>words = [], fresh = True\<rparr> =
    Option.bind
      (put_path d p ''.elf'' \<lparr>words = [tool, ''-O'', ''binary'', ''-R'', ''.eeprom''], fresh = True\<rparr>)
      (\<lambda>s. put_path d p ''.bin'' (next_word s))"
proof -
  have pre: "next_word (add_text ''.eeprom'' (next_word (add_text ''-R'' (next_word
      (add_text ''binary'' (next_word (add_text ''-O'' (next_word (this_word
      (add_text tool \<lparr>words = [], fresh = True\<rparr>)))))))))) =
      \<lparr>words = [tool, ''-O'', ''binary'', ''-R'', ''.eeprom''], fresh = True\<rparr>"
    by (simp add: add_text_def next_word_def this_word_def)
  show ?thesis
    using assms(1,3,4)
    by (simp add: put_path_def put_var_def is_var_name_def is_name_start_def is_name_char_def
      is_plain_def put_value_plain_word [OF assms(2)] pre split: option.splits)
qed

lemma to_bin_adds_one: "length (post_actions (to_bin e)) = Suc (length (post_actions e))"
  by (simp add: to_bin_post_actions)

lemma command_line_joined:
  assumes "post_actions (to_bin e) = post_actions e @ [(tgt, act)]"
  shows "cmd_line act = join_str '' '' [''$OBJCOPY'', ''-O'', ''binary'', ''-R'', ''.eeprom'',
        tgt, ''$BUILD_DIR/${PROGNAME}.bin'']"
  using to_bin_entry [OF assms] by simp


section \<open>Reading a value into words\<close>

lemma words_add_text_not_Nil [simp]: "words (add_text x s) \<noteq> []"
  by (simp add: add_text_def)




lemma shift_next_word: "next_word (shift P s) = shift P (next_word s)"
  by (simp add: next_word_def shift_def)

lemma shift_this_word: "this_word (shift P s) = shift P (this_word s)"
  by (simp add: this_word_def shift_def)

lemma shift_add_text: "anchored s \<Longrightarrow> add_text x (shift P s) = shift P (add_text x s)"
  by (auto simp: anchored_def add_text_def shift_def butlast_append)

lemma anchored_simps [simp]: "anchored (next_word s)" "anchored (add_text x s)"
  by (simp_all add: anchored_def next_word_def add_text_def)

lemma put_value_shift:
  "anchored s \<Longrightarrow> put_value v (shift P s) = map_option (shift P) (put_value v s)"
proof (induction v arbitrary: s)
  case Nil
  show ?case by simp
next
  case (Cons c cs)
  show ?case
    using Cons.IH [of "next_word s"] Cons.IH [of "add_text [c] s"] Cons.prems
    by (simp add: shift_next_word shift_add_text)
qed



lemma put_value_not_Nil:
  "put_value v s = Some s' \<Longrightarrow> has_plain v \<or> words s \<noteq> [] \<Longrightarrow> words s' \<noteq> []"
proof (induction v arbitrary: s)
  case Nil
  then show ?case by (simp add: has_plain_def)
next
  case (Cons c cs)
  show ?case
  proof (cases "c = CHR '' ''")
    case True
    with Cons.prems have "put_value cs (next_word s) = Some s'"
      and "has_plain cs \<or> words (next_word s) \<noteq> []"
      by (auto simp: has_plain_def next_word_def dest: plain_not_space)
    then show ?thesis by (rule Cons.IH)
  next
    case False
    with Cons.prems have "put_value cs (add_text [c] s) = Some s'"
      by (simp split: if_splits)
    then show ?thesis by (rule Cons.IH) simp
  qed
qed





section \<open>Reading a path token into words\<close>



lemma put_path_shift:
  assumes "has_plain d" and "anchored s"
  shows "put_path d p ext (shift P s) = map_option (shift P) (put_path d p ext s)"
proof (cases "put_value d s")
  case None
  then show ?thesis by (simp add: put_path_def put_value_shift [OF assms(2)])
next
  case (Some s1)
  from put_value_not_Nil [OF Some] assms(1) have "anchored (this_word s1)"
    by (simp add: anchored_def this_word_def)
  then have slash: "add_text ''/'' (this_word (shift P s1)) = shift P (add_text ''/'' (this_word s1))"
    by (simp add: shift_this_word shift_add_text)
  show ?thesis
  proof (cases "put_value p (add_text ''/'' (this_word s1))")
    case None
    with Some show ?thesis
      by (simp add: put_path_def put_value_shift [OF assms(2)] slash put_value_shift)
  next
    case (Some s2)
    from put_value_not_Nil [OF Some] have "anchored (this_word s2)"
      by (simp add: anchored_def this_word_def)
    then have "add_text ext (this_word (shift P s2)) = shift P (add_text ext (this_word s2))"
      by (simp add: shift_this_word shift_add_text)
    with \<open>put_value d s = Some s1\<close> Some show ?thesis
      by (simp add: put_path_def put_value_shift [OF assms(2)] slash put_value_shift)
  qed
qed

lemma put_path_fresh:
  assumes "has_plain d"
  shows "put_path d p ext \<lparr>words = P, fresh = True\<rparr> =
     map_option (shift P) (put_path d p ext \<lparr>words = [], fresh = True\<rparr>)"
  using put_path_shift [OF assms, of "\<lparr>words = [], fresh = True\<rparr>" p ext P]
  by (simp add: shift_def anchored_def)



lemma put_path_plain:
  assumes "plain_word d" and "plain_word p"
  shows "put_path d p ext \<lparr>words = [], fresh = True\<rparr> =
     Some \<lparr>words = [d @ ''/'' @ p @ ext], fresh = False\<rparr>"
  using assms
  by (simp add: put_path_def put_value_plain_word add_text_def this_word_def)

lemma has_plain_word: "plain_word w \<Longrightarrow> has_plain w"
  by (cases w) (simp_all add: plain_word_def has_plain_def)

lemma strip_marks_unmarked:
  "w \<noteq> [] \<Longrightarrow> unmarked w \<Longrightarrow> strip_marks (w # ws) = w # ws"
  by (cases w) (simp_all add: unmarked_def)

lemma filter_plain_ext [simp]:
  "filter (\<lambda>c. c \<noteq> CHR '' '') (d @ ''/'' @ p @ ''.elf'') =
     filter (\<lambda>c. c \<noteq> CHR '' '') d @ ''/'' @ filter (\<lambda>c. c \<noteq> CHR '' '') p @ ''.elf''"
  "filter (\<lambda>c. c \<noteq> CHR '' '') (d @ ''/'' @ p @ ''.bin'') =
     filter (\<lambda>c. c \<noteq> CHR '' '') d @ ''/'' @ filter (\<lambda>c. c \<noteq> CHR '' '') p @ ''.bin''"
  by simp_all

section \<open>The words of the registered command\<close>

lemma command_words_paths:
  assumes reg: "post_actions (to_bin e) = post_actions e @ [(tgt, act)]"
    and tool: "vs ''OBJCOPY'' = Some tool" "plain_word tool" "unmarked tool"
    and dir: "vs ''BUILD_DIR'' = Some d" "has_plain d"
    and name: "vs ''PROGNAME'' = Some p"
    and elf: "put_path d p ''.elf'' \<lparr>words = [], fresh = True\<rparr> = Some se"
    and bin: "put_path d p ''.bin'' \<lparr>words = [], fresh = True\<rparr> = Some sb"
  shows "subst_list vs ''$BUILD_DIR/${PROGNAME}.elf'' = Some (words se)"
    and "subst_list vs ''$BUILD_DIR/${PROGNAME}.bin'' = Some (words sb)"
    and "command_words vs act =
      Some ([tool, ''-O'', ''binary'', ''-R'', ''.eeprom''] @ words se @ words sb)"
proof -
  show "subst_list vs ''$BUILD_DIR/${PROGNAME}.elf'' = Some (words se)"
    unfolding subst_list_def path_template(1) [OF dir(1) name] elf by simp
  show "subst_list vs ''$BUILD_DIR/${PROGNAME}.bin'' = Some (words sb)"
    unfolding subst_list_def path_template(2) [OF dir(1) name] bin by simp
  let ?P = "[tool, ''-O'', ''binary'', ''-R'', ''.eeprom'']"
  have 1: "put_path d p ''.elf'' \<lparr>words = ?P, fresh = True\<rparr> = Some (shift ?P se)"
    using put_path_fresh [OF dir(2), of p "''.elf''" ?P] elf by simp
  have "next_word (shift ?P se) = \<lparr>words = ?P @ words se, fresh = True\<rparr>"
    by (simp add: next_word_def shift_def)
  then have 2: "put_path d p ''.bin'' (next_word (shift ?P se)) = Some (shift (?P @ words se) sb)"
    using put_path_fresh [OF dir(2), of p "''.bin''" "?P @ words se"] bin by simp
  have "subst_list vs (cmd_line act) = Some (?P @ words se @ words sb)"
    unfolding subst_list_def to_bin_entry(2) [OF reg]
      command_template [OF tool(1,2) dir(1) name]
    by (simp add: 1 2, simp add: shift_def)
  moreover from tool(2) have "tool \<noteq> []" by (simp add: plain_word_def)
  ultimately show "command_words vs act = Some (?P @ words se @ words sb)"
    by (simp del: strip_marks.simps add: command_words_def strip_marks_unmarked [OF _ tool(3)])
qed

lemma command_words_plain:
  assumes "post_actions (to_bin e) = post_actions e @ [(tgt, act)]"
    and "vs ''OBJCOPY'' = Some tool" and "plain_word tool" and "unmarked tool"
    and "vs ''BUILD_DIR'' = Some d" and "plain_word d"
    and "vs ''PROGNAME'' = Some p" and "plain_word p"
  shows "command_words vs act =
     Some [tool, ''-O'', ''binary'', ''-R'', ''.eeprom'', elf_path d p, bin_path d p]"
  using command_words_paths(3) [OF assms(1-5) has_plain_word [OF assms(6)] assms(7)
      put_path_plain [OF assms(6,8)] put_path_plain [OF assms(6,8)]]
  by (simp add: elf_path_def bin_path_def)

lemma target_words_plain:
  assumes "vs ''BUILD_DIR'' = Some d" and "plain_word d"
    and "vs ''PROGNAME'' = Some p" and "plain_word p"
  shows "subst_list vs ''$BUILD_DIR/${PROGNAME}.elf'' = Some [elf_path d p]"
  unfolding subst_list_def path_template(1) [OF assms(1,3)] put_path_plain [OF assms(2,4)]
  by (simp add: elf_path_def)

section \<open>The claims\<close>

text \<open>
  In the theorems below, \<open>(tgt, act)\<close> is the entry that running the script adds to the
  environment \<open>e\<close>, and \<open>vs\<close> holds the build variables at the time the action runs.
\<close>

text \<open>
  C1 (as amended). For every build in which the object-copy tool, the build directory
  and the program name are set to plain words (non-empty texts of letters, digits and
  \<open>_ . / - + : , @\<close>, the tool not starting with \<open>@\<close> or \<open>-\<close>), the command line of the
  post-build action is the tool followed by exactly the arguments
  \<open>-O binary -R .eeprom <build_dir>/<program_name>.elf <build_dir>/<program_name>.bin\<close>,
  in that order, and nothing else.
\<close>

theorem objcopy_arguments:
  assumes "post_actions (to_bin e) = post_actions e @ [(tgt, act)]"
    and "vs ''OBJCOPY'' = Some tool" and "plain_word tool" and "unmarked tool"
    and "vs ''BUILD_DIR'' = Some d" and "plain_word d"
    and "vs ''PROGNAME'' = Some p" and "plain_word p"
  shows "command_words vs act =
     Some [tool, ''-O'', ''binary'', ''-R'', ''.eeprom'', elf_path d p, bin_path d p]"
  using assms by (rule command_words_plain)

theorem objcopy_arguments_witness:
  "post_actions (to_bin \<lparr>verbose = False, post_actions = []\<rparr>) =
     [(''$BUILD_DIR/${PROGNAME}.elf'',
       \<lparr>cmd_line =
          ''$OBJCOPY -O binary -R .eeprom $BUILD_DIR/${PROGNAME}.elf $BUILD_DIR/${PROGNAME}.bin'',
        cmd_str = Some ''Building $BUILD_DIR/${PROGNAME}.bin''\<rparr>)] \<and>
   plain_word ''arm-none-eabi-objcopy'' \<and> unmarked ''arm-none-eabi-objcopy'' \<and>
   plain_word ''.pio/build/teensy41'' \<and> plain_word ''firmware'' \<and>
   command_words
     [''OBJCOPY'' \<mapsto> ''arm-none-eabi-objcopy'', ''BUILD_DIR'' \<mapsto> ''.pio/build/teensy41'',
      ''PROGNAME'' \<mapsto> ''firmware'']
     \<lparr>cmd_line =
        ''$OBJCOPY -O binary -R .eeprom $BUILD_DIR/${PROGNAME}.elf $BUILD_DIR/${PROGNAME}.bin'',
      cmd_str = Some ''Building $BUILD_DIR/${PROGNAME}.bin''\<rparr> =
   Some [''arm-none-eabi-objcopy'', ''-O'', ''binary'', ''-R'', ''.eeprom'',
    ''.pio/build/teensy41/firmware.elf'', ''.pio/build/teensy41/firmware.bin'']"
proof -
  let ?vs = "[''OBJCOPY'' \<mapsto> ''arm-none-eabi-objcopy'',
    ''BUILD_DIR'' \<mapsto> ''.pio/build/teensy41'', ''PROGNAME'' \<mapsto> ''firmware'']"
  let ?act = "\<lparr>cmd_line =
        ''$OBJCOPY -O binary -R .eeprom $BUILD_DIR/${PROGNAME}.elf $BUILD_DIR/${PROGNAME}.bin'',
      cmd_str = Some ''Building $BUILD_DIR/${PROGNAME}.bin''\<rparr>"
  let ?e = "\<lparr>verbose = False, post_actions = []\<rparr>"
  have reg: "post_actions (to_bin ?e) = post_actions ?e @ [(''$BUILD_DIR/${PROGNAME}.elf'', ?act)]"
    by (simp add: to_bin_post_actions)
  have tool: "?vs ''OBJCOPY'' = Some ''arm-none-eabi-objcopy''"
    and dir: "?vs ''BUILD_DIR'' = Some ''.pio/build/teensy41''"
    and name: "?vs ''PROGNAME'' = Some ''firmware''"
    by simp_all
  have plain: "plain_word ''arm-none-eabi-objcopy''" "unmarked ''arm-none-eabi-objcopy''"
    "plain_word ''.pio/build/teensy41''" "plain_word ''firmware''"
    by (simp_all add: plain_word_def unmarked_def is_mark_def is_plain_def)
  show ?thesis
    using objcopy_arguments [where vs = ?vs, OF reg tool plain(1,2) dir plain(3) name plain(4)]
      reg plain
    by (simp add: elf_path_def bin_path_def)
qed

text \<open>
  C1 as stated, for every build directory, fails where the directory has a space in it:
  with the build directory \<open>my project/.pio/build\<close> the tool is handed eight arguments,
  and neither path is one of them.
\<close>

theorem objcopy_arguments_counterexample:
  "command_words
     [''OBJCOPY'' \<mapsto> ''objcopy'', ''BUILD_DIR'' \<mapsto> ''my project/.pio/build'',
      ''PROGNAME'' \<mapsto> ''firmware'']
     (snd (last (post_actions (to_bin \<lparr>verbose = False, post_actions = []\<rparr>)))) =
   Some [''objcopy'', ''-O'', ''binary'', ''-R'', ''.eeprom'',
    ''my'', ''project/.pio/build/firmware.elf'', ''my'', ''project/.pio/build/firmware.bin''] \<and>
   command_words
     [''OBJCOPY'' \<mapsto> ''objcopy'', ''BUILD_DIR'' \<mapsto> ''my project/.pio/build'',
      ''PROGNAME'' \<mapsto> ''firmware'']
     (snd (last (post_actions (to_bin \<lparr>verbose = False, post_actions = []\<rparr>)))) \<noteq>
   Some [''objcopy'', ''-O'', ''binary'', ''-R'', ''.eeprom'',
    ''my project/.pio/build/firmware.elf'', ''my project/.pio/build/firmware.bin'']"
  by code_simp




text \<open>
  C10 (as amended). The target for which the action is registered and the sixth token
  of the command line are the identical template \<open>$BUILD_DIR/${PROGNAME}.elf\<close>. In a
  build in which the tool, the build directory and the program name are set to plain
  words, that template gives the one word \<open><build_dir>/<program_name>.elf\<close>, and this
  word is the input argument handed to the object-copy tool (the sixth of the seven
  command words).
\<close>

theorem target_is_input_template:
  assumes reg: "post_actions (to_bin e) = post_actions e @ [(tgt, act)]"
  shows "tgt = ''$BUILD_DIR/${PROGNAME}.elf'' \<and>
     cmd_line act = join_str '' '' [''$OBJCOPY'', ''-O'', ''binary'', ''-R'', ''.eeprom'',
        tgt, ''$BUILD_DIR/${PROGNAME}.bin''] \<and>
     (vs ''OBJCOPY'' = Some tool \<and> plain_word tool \<and> unmarked tool \<and>
      vs ''BUILD_DIR'' = Some d \<and> plain_word d \<and>
      vs ''PROGNAME'' = Some p \<and> plain_word p \<longrightarrow>
        subst_list vs tgt = Some [elf_path d p] \<and>
        (\<exists>ws. command_words vs act = Some ws \<and> length ws = 7 \<and> ws ! 5 = elf_path d p))"
proof (intro conjI impI)
  show tgt: "tgt = ''$BUILD_DIR/${PROGNAME}.elf''"
    using to_bin_entry(1) [OF reg] .
  show "cmd_line act = join_str '' '' [''$OBJCOPY'', ''-O'', ''binary'', ''-R'', ''.eeprom'',
        tgt, ''$BUILD_DIR/${PROGNAME}.bin'']"
    using reg by (rule command_line_joined)
  assume h: "vs ''OBJCOPY'' = Some tool \<and> plain_word tool \<and> unmarked tool \<and>
      vs ''BUILD_DIR'' = Some d \<and> plain_word d \<and>
      vs ''PROGNAME'' = Some p \<and> plain_word p"
  then show "subst_list vs tgt = Some [elf_path d p]"
    unfolding tgt by (intro target_words_plain) simp_all
  from h have "command_words vs act =
      Some [tool, ''-O'', ''binary'', ''-R'', ''.eeprom'', elf_path d p, bin_path d p]"
    by (intro command_words_plain [OF reg]) simp_all
  then show "\<exists>ws. command_words vs act = Some ws \<and> length ws = 7 \<and> ws ! 5 = elf_path d p"
    by simp
qed

theorem target_is_input_template_witness:
  "post_actions (to_bin \<lparr>verbose = False, post_actions = []\<rparr>) =
     [(''$BUILD_DIR/${PROGNAME}.elf'',
       \<lparr>cmd_line =
          ''$OBJCOPY -O binary -R .eeprom $BUILD_DIR/${PROGNAME}.elf $BUILD_DIR/${PROGNAME}.bin'',
        cmd_str = Some ''Building $BUILD_DIR/${PROGNAME}.bin''\<rparr>)] \<and>
   plain_word ''arm-none-eabi-objcopy'' \<and> unmarked ''arm-none-eabi-objcopy'' \<and>
   plain_word ''.pio/build/teensy41'' \<and> plain_word ''firmware'' \<and>
   subst_list
     [''OBJCOPY'' \<mapsto> ''arm-none-eabi-objcopy'', ''BUILD_DIR'' \<mapsto> ''.pio/build/teensy41'',
      ''PROGNAME'' \<mapsto> ''firmware'']
     ''$BUILD_DIR/${PROGNAME}.elf'' = Some [''.pio/build/teensy41/firmware.elf''] \<and>
   (\<exists>ws. command_words
     [''OBJCOPY'' \<mapsto> ''arm-none-eabi-objcopy'', ''BUILD_DIR'' \<mapsto> ''.pio/build/teensy41'',
      ''PROGNAME'' \<mapsto> ''firmware'']
     \<lparr>cmd_line =
        ''$OBJCOPY -O binary -R .eeprom $BUILD_DIR/${PROGNAME}.elf $BUILD_DIR/${PROGNAME}.bin'',
      cmd_str = Some ''Building $BUILD_DIR/${PROGNAME}.bin''\<rparr> = Some ws \<and>
     length ws = 7 \<and> ws ! 5 = ''.pio/build/teensy41/firmware.elf'')"
proof -
  let ?vs = "[''OBJCOPY'' \<mapsto> ''arm-none-eabi-objcopy'',
    ''BUILD_DIR'' \<mapsto> ''.pio/build/teensy41'', ''PROGNAME'' \<mapsto> ''firmware'']"
  let ?act = "\<lparr>cmd_line =
        ''$OBJCOPY -O binary -R .eeprom $BUILD_DIR/${PROGNAME}.elf $BUILD_DIR/${PROGNAME}.bin'',
      cmd_str = Some ''Building $BUILD_DIR/${PROGNAME}.bin''\<rparr>"
  let ?e = "\<lparr>verbose = False, post_actions = []\<rparr>"
  have reg: "post_actions (to_bin ?e) = post_actions ?e @ [(''$BUILD_DIR/${PROGNAME}.elf'', ?act)]"
    by (simp add: to_bin_post_actions)
  have plain: "plain_word ''arm-none-eabi-objcopy''" "unmarked ''arm-none-eabi-objcopy''"
    "plain_word ''.pio/build/teensy41''" "plain_word ''firmware''"
    by (simp_all add: plain_word_def unmarked_def is_mark_def is_plain_def)
  have path: "elf_path ''.pio/build/teensy41'' ''firmware'' = ''.pio/build/teensy41/firmware.elf''"
    by (simp add: elf_path_def)
  from target_is_input_template [where vs = ?vs and tool = "''arm-none-eabi-objcopy''"
      and d = "''.pio/build/teensy41''" and p = "''firmware''", OF reg] plain
  have "subst_list ?vs ''$BUILD_DIR/${PROGNAME}.elf'' =
      Some [elf_path ''.pio/build/teensy41'' ''firmware'']"
    and "\<exists>ws. command_words ?vs ?act = Some ws \<and> length ws = 7 \<and>
      ws ! 5 = elf_path ''.pio/build/teensy41'' ''firmware''"
    by simp_all
  with reg plain show ?thesis unfolding path by simp
qed

text \<open>
  C10 as stated, for every build, fails where the build directory has a space in it:
  the target template spells \<open>my project/.pio/build/firmware.elf\<close>, and no argument of
  the command is that path.
\<close>

theorem target_is_input_template_counterexample:
  "fst (last (post_actions (to_bin \<lparr>verbose = False, post_actions = []\<rparr>))) =
     ''$BUILD_DIR/${PROGNAME}.elf'' \<and>
   elf_path ''my project/.pio/build'' ''firmware'' = ''my project/.pio/build/firmware.elf'' \<and>
   command_words
     [''OBJCOPY'' \<mapsto> ''objcopy'', ''BUILD_DIR'' \<mapsto> ''my project/.pio/build'',
      ''PROGNAME'' \<mapsto> ''firmware'']
     (snd (last (post_actions (to_bin \<lparr>verbose = False, post_actions = []\<rparr>)))) =
   Some [''objcopy'', ''-O'', ''binary'', ''-R'', ''.eeprom'',
     ''my'', ''project/.pio/build/firmware.elf'', ''my'', ''project/.pio/build/firmware.bin''] \<and>
   ''my project/.pio/build/firmware.elf'' \<notin> set [''objcopy'', ''-O'', ''binary'', ''-R'', ''.eeprom'',
     ''my'', ''project/.pio/build/firmware.elf'', ''my'', ''project/.pio/build/firmware.bin'']"
  by code_simp

end
